theory Spec2Isabelle
  imports Main "HOL-Library.Sublist"
begin

section \<open>Python strings\<close>

text \<open>
  A Python \<open>str\<close> is a sequence of Unicode code points: \<open>len\<close> and slicing count code
  points, not bytes. A string is therefore a list of code points; \<open>lit\<close> embeds an ASCII
  literal, and the few non-ASCII characters of the sources are written as their code
  point numbers.
\<close>

type_synonym ustr = "nat list"

definition lit :: "string \<Rightarrow> ustr" where
  "lit s = map of_char s"

text \<open>The newline character, \<open>'\n'\<close>.\<close>

definition nl :: nat where
  "nl = 10"

text \<open>\<open>sep.join(parts)\<close>.\<close>

fun join :: "ustr \<Rightarrow> ustr list \<Rightarrow> ustr" where
  "join sep [] = []"
| "join sep [x] = x"
| "join sep (x # y # ys) = x @ sep @ join sep (y # ys)"

text \<open>\<open>s.split(sep)\<close> for a one-character separator: never the empty list.\<close>

fun split :: "nat \<Rightarrow> ustr \<Rightarrow> ustr list" where
  "split c [] = [[]]"
| "split c (x # xs) =
     (if x = c then [] # split c xs
      else (case split c xs of [] \<Rightarrow> [[x]] | l # ls \<Rightarrow> (x # l) # ls))"

text \<open>\<open>sub in s\<close> on strings: \<open>sub\<close> occurs in \<open>s\<close> as a contiguous run.\<close>

fun starts_with :: "ustr \<Rightarrow> ustr \<Rightarrow> bool" where
  "starts_with s [] = True"
| "starts_with [] (p # ps) = False"
| "starts_with (x # xs) (p # ps) = (x = p \<and> starts_with xs ps)"

fun contains :: "ustr \<Rightarrow> ustr \<Rightarrow> bool" where
  "contains [] sub = (sub = [])"
| "contains (x # xs) sub = (starts_with (x # xs) sub \<or> contains xs sub)"

text \<open>\<open>str(n)\<close> for an integer: decimal digits, with a minus sign when negative.\<close>

fun digits :: "nat \<Rightarrow> ustr" where
  "digits n = (if n < 10 then [48 + n] else digits (n div 10) @ [48 + n mod 10])"

declare digits.simps [simp del]

definition str_of_int :: "int \<Rightarrow> ustr" where
  "str_of_int i = (if i < 0 then 45 # digits (nat (- i)) else digits (nat i))"

text \<open>
  \<open>str.isspace\<close> on one code point, and \<open>s.strip()\<close>, which removes the leading and the
  trailing whitespace.
\<close>

definition is_space :: "nat \<Rightarrow> bool" where
  "is_space c \<longleftrightarrow>
     (9 \<le> c \<and> c \<le> 13) \<or> (28 \<le> c \<and> c \<le> 32) \<or> c = 133 \<or> c = 160 \<or> c = 5760 \<or>
     (8192 \<le> c \<and> c \<le> 8202) \<or> c = 8232 \<or> c = 8233 \<or> c = 8239 \<or> c = 8287 \<or> c = 12288"

definition strip :: "ustr \<Rightarrow> ustr" where
  "strip s = rev (dropWhile is_space (rev (dropWhile is_space s)))"

section \<open>Errors and remote calls\<close>

text \<open>
  Every exception of the sources is a value. \<open>ValueError\<close> carries its message;
  \<open>AttributeError\<close> and \<open>TypeError\<close> are what Python raises on a value of the wrong shape;
  \<open>RemoteError\<close> stands for whatever a call to a remote service raises.
\<close>

datatype error =
    ValueError string
  | AttributeError
  | TypeError
  | RemoteError string

text \<open>
  The object an agent's \<open>run\<close> returns: either it has a \<open>content\<close> attribute, or it has
  none and the sources take \<open>str(response)\<close>, carried here by \<open>Opaque\<close>.
\<close>

datatype run_response = Content ustr | Opaque ustr

definition response_text :: "run_response \<Rightarrow> ustr" where
  "response_text response = (case response of Content c \<Rightarrow> c | Opaque s \<Rightarrow> s)"

text \<open>
  The three remote text-generation endpoints, one per agent: each maps a prompt to a
  response or raises.
\<close>

record remote =
  linkedin_run :: "ustr \<Rightarrow> error + run_response"
  x_run :: "ustr \<Rightarrow> error + run_response"
  orchestrator_run :: "ustr \<Rightarrow> error + run_response"

definition succeeded :: "error + 'a \<Rightarrow> bool" where
  "succeeded r = (case r of Inl e \<Rightarrow> False | Inr v \<Rightarrow> True)"

text \<open>
  The log of the remote calls. The only place that writes it is \<open>agent_run\<close>, the model of
  \<open>Agent.run\<close>: calling the endpoint of an agent records \<open>Called\<close>, and its return or raise
  records \<open>Returned\<close>, with \<open>False\<close> for a raise. Every function that calls \<open>run\<close> hands the
  entries on to its caller together with its result.
\<close>

datatype caller = LinkedInAgent | XAgent | OrchestratorAgent

datatype event =
    Called caller
  | Returned caller bool

definition agent_run ::
  "caller \<Rightarrow> (ustr \<Rightarrow> error + run_response) \<Rightarrow> ustr \<Rightarrow>
   event list \<times> (error + run_response)" where
  "agent_run who endpoint prompt =
     ([Called who, Returned who (succeeded (endpoint prompt))], endpoint prompt)"

section \<open>Platform agents\<close>

record generation_result =
  platform :: ustr
  num_posts :: int
  posts :: ustr
  agent :: ustr

definition linkedin_agent_name :: ustr where
  "linkedin_agent_name = lit ''LinkedIn Content Creator''"

definition x_agent_name :: ustr where
  "x_agent_name = lit ''X Content Creator''"

definition orchestrator_name :: ustr where
  "orchestrator_name = lit ''Master Orchestrator''"

definition linkedin_prompt :: "ustr \<Rightarrow> ustr \<Rightarrow> int \<Rightarrow> ustr" where
  "linkedin_prompt context examples n = join [nl]
     [lit ''Generate '' @ str_of_int n @ lit '' unique LinkedIn posts based on the following:'',
      [],
      lit ''CONTEXT:'',
      context,
      [],
      lit ''EXAMPLE POSTS (for style reference):'',
      examples,
      [],
      lit ''REQUIREMENTS:'',
      lit ''- Create '' @ str_of_int n @ lit '' distinct, unique LinkedIn posts'',
      lit ''- Each post should be between 150-300 words'',
      lit ''- Follow the style and tone of the example posts'',
      lit ''- Incorporate insights from the context'',
      lit ''- Each post should be self-contained and valuable'',
      lit ''- Number each post clearly (Post 1, Post 2, etc.)'',
      lit ''- Include 3-5 relevant hashtags for each post'',
      [],
      lit ''Format each post clearly with:'',
      lit ''---'',
      lit ''Post [Number]'',
      lit ''[Post content here]'',
      lit ''---'',
      []]"

definition x_prompt :: "ustr \<Rightarrow> ustr \<Rightarrow> int \<Rightarrow> ustr" where
  "x_prompt context examples n = join [nl]
     [lit ''Generate '' @ str_of_int n @ lit '' unique X (Twitter) posts based on the following:'',
      [],
      lit ''CONTEXT:'',
      context,
      [],
      lit ''EXAMPLE POSTS (for style reference):'',
      examples,
      [],
      lit ''REQUIREMENTS:'',
      lit ''- Create '' @ str_of_int n @ lit '' distinct, unique X posts'',
      lit ''- Each post MUST be under 280 characters (including hashtags)'',
      lit ''- Follow the style and tone of the example posts'',
      lit ''- Incorporate insights from the context'',
      lit ''- Each post should be impactful and shareable'',
      lit ''- Number each post clearly (Post 1, Post 2, etc.)'',
      lit ''- Include 1-3 relevant hashtags for each post'',
      [],
      lit ''Format each post clearly with:'',
      lit ''---'',
      lit ''Post [Number]'',
      lit ''[Post content here - UNDER 280 characters]'',
      lit ''---'',
      []]"

text \<open>\<open>LinkedInAgent.generate_posts\<close>: an error of the remote call propagates unchanged.\<close>

definition linkedin_generate_posts ::
  "remote \<Rightarrow> ustr \<Rightarrow> ustr \<Rightarrow> int \<Rightarrow> event list \<times> (error + generation_result)" where
  "linkedin_generate_posts env context examples n =
     (case agent_run LinkedInAgent (linkedin_run env) (linkedin_prompt context examples n) of
        (calls, Inl e) \<Rightarrow> (calls, Inl e)
      | (calls, Inr response) \<Rightarrow>
          (calls,
           Inr \<lparr>platform = lit ''LinkedIn'', num_posts = n,
                posts = response_text response, agent = linkedin_agent_name\<rparr>))"

text \<open>\<open>XAgent.generate_posts\<close>.\<close>

definition x_generate_posts ::
  "remote \<Rightarrow> ustr \<Rightarrow> ustr \<Rightarrow> int \<Rightarrow> event list \<times> (error + generation_result)" where
  "x_generate_posts env context examples n =
     (case agent_run XAgent (x_run env) (x_prompt context examples n) of
        (calls, Inl e) \<Rightarrow> (calls, Inl e)
      | (calls, Inr response) \<Rightarrow>
          (calls,
           Inr \<lparr>platform = lit ''X (Twitter)'', num_posts = n,
                posts = response_text response, agent = x_agent_name\<rparr>))"

section \<open>Orchestrator\<close>

record post_block =
  block_platform :: ustr
  block_count :: int
  block_content :: ustr

record report_metadata =
  context_provided :: ustr
  total_linkedin_posts :: int
  total_x_posts :: int
  agents_used :: "ustr list"

record workflow_report =
  workflow_status :: ustr
  metadata :: report_metadata
  validation_summary :: ustr
  linkedin_posts :: post_block
  x_posts :: post_block

text \<open>The labels of \<open>future_to_agent\<close>.\<close>

datatype agent_name = AgentLinkedIn | AgentX

text \<open>
  The two tasks run on a pool of two threads. The program decides neither how their
  remote calls interleave nor in which order \<open>as_completed\<close> hands the two futures to the
  loop (the order in which they finished, or any order when both had finished before the
  loop started). Both are inputs of the model, and every pair of them is allowed: a
  schedule says at each step whether the LinkedIn task (\<open>True\<close>) or the X task moves next.
\<close>

fun interleave :: "bool list \<Rightarrow> 'a list \<Rightarrow> 'a list \<Rightarrow> 'a list" where
  "interleave schedule [] ys = ys"
| "interleave schedule xs [] = xs"
| "interleave [] xs ys = xs @ ys"
| "interleave (first # schedule) (x # xs) (y # ys) =
     (if first then x # interleave schedule xs (y # ys)
      else y # interleave schedule (x # xs) ys)"

datatype completion_order = LinkedInFirst | XFirst

text \<open>
  The loop over \<open>as_completed\<close>, on the futures in the order it is handed them: the
  first one whose \<open>result()\<close> raises ends the loop with that error, the others fill their
  slot.
\<close>

fun collect_results ::
  "(agent_name \<times> (error + generation_result)) list \<Rightarrow>
   generation_result option \<Rightarrow> generation_result option \<Rightarrow>
   error + (generation_result option \<times> generation_result option)" where
  "collect_results [] linkedin_output x_output = Inr (linkedin_output, x_output)"
| "collect_results ((agent_name, future) # rest) linkedin_output x_output =
     (case future of
        Inl e \<Rightarrow> Inl e
      | Inr result \<Rightarrow>
          if agent_name = AgentLinkedIn then collect_results rest (Some result) x_output
          else collect_results rest linkedin_output (Some result))"

text \<open>
  \<open>_execute_agents_parallel\<close>. Leaving the \<open>with\<close> block waits for both tasks, so the log
  holds the calls of both whether or not the loop ended with an error.
\<close>

definition execute_agents_parallel ::
  "remote \<Rightarrow> bool list \<Rightarrow> completion_order \<Rightarrow> ustr \<Rightarrow> ustr \<Rightarrow> int \<Rightarrow>
   event list \<times> (error + (generation_result option \<times> generation_result option))" where
  "execute_agents_parallel env schedule order context examples n =
     (case linkedin_generate_posts env context examples n of
        (linkedin_calls, linkedin_result) \<Rightarrow>
          (case x_generate_posts env context examples n of
             (x_calls, x_result) \<Rightarrow>
               (let linkedin_future = (AgentLinkedIn, linkedin_result);
                    x_future = (AgentX, x_result);
                    completed = (case order of
                                   LinkedInFirst \<Rightarrow> [linkedin_future, x_future]
                                 | XFirst \<Rightarrow> [x_future, linkedin_future])
                in (interleave schedule linkedin_calls x_calls,
                    collect_results completed None None))))"

definition validation_prompt :: "ustr \<Rightarrow> ustr \<Rightarrow> ustr \<Rightarrow> ustr \<Rightarrow> ustr" where
  "validation_prompt context examples linkedin_text x_text = join [nl]
     [lit ''Review the following generated posts and validate them based on these criteria:'',
      [],
      lit ''Original Context:'',
      context,
      [],
      lit ''Example Posts:'',
      examples,
      [],
      lit ''LinkedIn Posts Generated:'',
      linkedin_text,
      [],
      lit ''X Posts Generated:'',
      x_text,
      [],
      lit ''Validation Criteria:'',
      lit ''1. Do all posts align with the provided context?'',
      lit ''2. Do posts match the style and tone of example posts?'',
      lit ''3. Are there any duplicate or very similar posts?'',
      lit ''4. Are LinkedIn posts appropriate length (150-300 words)?'',
      lit ''5. Are X posts under 280 characters?'',
      lit ''6. Is the content valuable and engaging?'',
      lit ''7. Are posts unique and varied?'',
      [],
      lit ''Provide a brief validation summary and confirm if the posts meet quality standards.'',
      lit ''If any posts need improvement, specify which ones and why.'',
      []]"

text \<open>The context excerpt of the metadata: \<open>context[:100] + "..."\<close> when longer than 100.\<close>

definition context_excerpt :: "ustr \<Rightarrow> ustr" where
  "context_excerpt context =
     (if length context > 100 then take 100 context @ lit ''...'' else context)"

definition validate_and_compile ::
  "remote \<Rightarrow> ustr \<Rightarrow> ustr \<Rightarrow> generation_result \<Rightarrow> generation_result \<Rightarrow>
   event list \<times> (error + workflow_report)" where
  "validate_and_compile env context examples linkedin_output x_output =
     (case agent_run OrchestratorAgent (orchestrator_run env)
             (validation_prompt context examples (posts linkedin_output) (posts x_output)) of
        (calls, Inl e) \<Rightarrow> (calls, Inl e)
      | (calls, Inr validation_response) \<Rightarrow>
          (calls,
           Inr \<lparr>workflow_status = lit ''completed'',
                metadata = \<lparr>context_provided = context_excerpt context,
                             total_linkedin_posts = num_posts linkedin_output,
                             total_x_posts = num_posts x_output,
                             agents_used = [agent linkedin_output, agent x_output,
                                            orchestrator_name]\<rparr>,
                validation_summary = response_text validation_response,
                linkedin_posts = \<lparr>block_platform = platform linkedin_output,
                                   block_count = num_posts linkedin_output,
                                   block_content = posts linkedin_output\<rparr>,
                x_posts = \<lparr>block_platform = platform x_output,
                            block_count = num_posts x_output,
                            block_content = posts x_output\<rparr>\<rparr>))"

text \<open>
  \<open>execute_workflow\<close>: the parallel phase, then the validation. A slot still \<open>None\<close>
  would make the subscript in \<open>_validate_and_compile\<close> raise \<open>TypeError\<close>.
\<close>

definition execute_workflow ::
  "remote \<Rightarrow> bool list \<Rightarrow> completion_order \<Rightarrow> ustr \<Rightarrow> ustr \<Rightarrow> int \<Rightarrow>
   event list \<times> (error + workflow_report)" where
  "execute_workflow env schedule order context examples n =
     (case execute_agents_parallel env schedule order context examples n of
        (log, Inl e) \<Rightarrow> (log, Inl e)
      | (log, Inr (Some linkedin_output, Some x_output)) \<Rightarrow>
          (case validate_and_compile env context examples linkedin_output x_output of
             (log', final_output) \<Rightarrow> (log @ log', final_output))
      | (log, Inr _) \<Rightarrow> (log, Inl TypeError))"

section \<open>Scraped records\<close>

text \<open>
  A scraped item is a \<open>Dict[str, Any]\<close> decoded from JSON: its values have any JSON
  shape, so the model keeps the shape and makes each operation fail where Python's does.
  Numbers are the integers; an object is its list of key and value pairs.
\<close>

datatype json =
    JNull
  | JBool bool
  | JNum int
  | JStr ustr
  | JList "json list"
  | JObj "(ustr \<times> json) list"

type_synonym item = "(ustr \<times> json) list"

text \<open>\<open>d.get(key, default)\<close>.\<close>

definition dict_get :: "item \<Rightarrow> ustr \<Rightarrow> json \<Rightarrow> json" where
  "dict_get d key fallback = (case map_of d key of None \<Rightarrow> fallback | Some v \<Rightarrow> v)"

text \<open>Truth value testing, as \<open>not v\<close> and \<open>if v\<close> do it.\<close>

fun truthy :: "json \<Rightarrow> bool" where
  "truthy JNull = False"
| "truthy (JBool b) = b"
| "truthy (JNum n) = (n \<noteq> 0)"
| "truthy (JStr s) = (s \<noteq> [])"
| "truthy (JList vs) = (vs \<noteq> [])"
| "truthy (JObj kvs) = (kvs \<noteq> [])"

text \<open>
  The library functions whose result is text the program only passes on: \<open>str\<close> of a
  list or a dict, \<open>json.dumps(v, indent=2)\<close> and \<open>str.upper\<close>. They are parameters of the
  model, so every theorem holds whatever they return.
\<close>

record builtins =
  container_str :: "json \<Rightarrow> ustr"
  json_dumps :: "json \<Rightarrow> ustr"
  str_upper :: "ustr \<Rightarrow> ustr"

text \<open>\<open>str(v)\<close>, which is also what an f-string does with \<open>{v}\<close>.\<close>

definition py_str :: "builtins \<Rightarrow> json \<Rightarrow> ustr" where
  "py_str lib v =
     (case v of
        JStr s \<Rightarrow> s
      | JNull \<Rightarrow> lit ''None''
      | JBool b \<Rightarrow> (if b then lit ''True'' else lit ''False'')
      | JNum n \<Rightarrow> str_of_int n
      | JList vs \<Rightarrow> container_str lib v
      | JObj kvs \<Rightarrow> container_str lib v)"

text \<open>The double quote character.\<close>

definition dquote :: nat where
  "dquote = 34"

definition no_examples :: ustr where
  "no_examples = lit ''No valid examples found from scraped content.''"

text \<open>The separator of \<open>"\n---\n\n".join(examples)\<close>.\<close>

definition example_separator :: ustr where
  "example_separator = [nl] @ lit ''---'' @ [nl, nl]"

subsection \<open>LinkedIn: \<open>_format_as_examples\<close>\<close>

text \<open>
  One round of the loop for the item at position \<open>idx\<close>: \<open>Inr None\<close> is \<open>continue\<close>,
  \<open>Inr (Some example)\<close> is what \<open>examples.append\<close> receives, \<open>Inl\<close> is a raise. The author is
  read before the text is tested, so an author that is not a dict raises whatever the
  text is; so does a text that is truthy and has no \<open>strip\<close>.
\<close>

definition linkedin_example :: "builtins \<Rightarrow> nat \<Rightarrow> item \<Rightarrow> error + ustr option" where
  "linkedin_example lib idx item =
     (let text = dict_get item (lit ''text'') (JStr [])
      in case dict_get item (lit ''author'') (JObj []) of
           JObj author_fields \<Rightarrow>
             (let author = dict_get author_fields (lit ''name'') (JStr (lit ''Unknown Author''))
              in if \<not> truthy text then Inr None
                 else (case text of
                         JStr t \<Rightarrow>
                           if length (strip t) < 20 then Inr None
                           else Inr (Some (lit ''LinkedIn Example '' @ digits idx @ lit '':'' @ [nl] @
                                           [dquote] @ t @ [dquote] @ [nl] @
                                           lit ''(Author: '' @ py_str lib author @ lit '')'' @ [nl]))
                       | _ \<Rightarrow> Inl AttributeError))
         | _ \<Rightarrow> Inl AttributeError)"

fun linkedin_examples_loop ::
  "builtins \<Rightarrow> nat \<Rightarrow> item list \<Rightarrow> ustr list \<Rightarrow> error + ustr list" where
  "linkedin_examples_loop lib idx [] examples = Inr examples"
| "linkedin_examples_loop lib idx (item # items) examples =
     (case linkedin_example lib idx item of
        Inl e \<Rightarrow> Inl e
      | Inr None \<Rightarrow> linkedin_examples_loop lib (Suc idx) items examples
      | Inr (Some example) \<Rightarrow> linkedin_examples_loop lib (Suc idx) items (examples @ [example]))"

definition linkedin_format_as_examples :: "builtins \<Rightarrow> item list \<Rightarrow> error + ustr" where
  "linkedin_format_as_examples lib items =
     (case linkedin_examples_loop lib 1 items [] of
        Inl e \<Rightarrow> Inl e
      | Inr examples \<Rightarrow>
          if examples = [] then Inr no_examples
          else Inr (join example_separator examples))"

subsection \<open>X: \<open>_format_as_examples\<close>\<close>

text \<open>
  The text falls back on \<open>full_text\<close>; the author may be a dict or anything else, which
  is then printed with \<open>str\<close> when truthy. Only a truthy text without \<open>strip\<close> raises.
\<close>

definition x_author_name :: "builtins \<Rightarrow> item \<Rightarrow> ustr" where
  "x_author_name lib item =
     (case dict_get item (lit ''author'') (JObj []) of
        JObj author_fields \<Rightarrow>
          py_str lib (dict_get author_fields (lit ''userName'')
                        (dict_get author_fields (lit ''name'') (JStr (lit ''Unknown Author''))))
      | author \<Rightarrow> if truthy author then py_str lib author else lit ''Unknown Author'')"

definition x_example :: "builtins \<Rightarrow> nat \<Rightarrow> item \<Rightarrow> error + ustr option" where
  "x_example lib idx item =
     (let text = dict_get item (lit ''text'') (dict_get item (lit ''full_text'') (JStr []));
          author_name = x_author_name lib item
      in if \<not> truthy text then Inr None
         else (case text of
                 JStr t \<Rightarrow>
                   if length (strip t) < 10 then Inr None
                   else if starts_with t (lit ''RT @'') then Inr None
                   else if length t > 400 then Inr None
                   else Inr (Some (lit ''X Example '' @ digits idx @ lit '':'' @ [nl] @
                                   [dquote] @ t @ [dquote] @ [nl] @
                                   lit ''(Author: @'' @ author_name @ lit '')'' @ [nl]))
               | _ \<Rightarrow> Inl AttributeError))"

fun x_examples_loop ::
  "builtins \<Rightarrow> nat \<Rightarrow> item list \<Rightarrow> ustr list \<Rightarrow> error + ustr list" where
  "x_examples_loop lib idx [] examples = Inr examples"
| "x_examples_loop lib idx (item # items) examples =
     (case x_example lib idx item of
        Inl e \<Rightarrow> Inl e
      | Inr None \<Rightarrow> x_examples_loop lib (Suc idx) items examples
      | Inr (Some example) \<Rightarrow> x_examples_loop lib (Suc idx) items (examples @ [example]))"

definition x_format_as_examples :: "builtins \<Rightarrow> item list \<Rightarrow> error + ustr" where
  "x_format_as_examples lib items =
     (case x_examples_loop lib 1 items [] of
        Inl e \<Rightarrow> Inl e
      | Inr examples \<Rightarrow>
          if examples = [] then Inr no_examples
          else Inr (join example_separator examples))"

section \<open>Example fetchers\<close>

text \<open>
  \<open>s.replace(old, new)\<close>: every occurrence, left to right, without overlap. The sources
  only call it with a non-empty \<open>old\<close>.
\<close>

function replace :: "ustr \<Rightarrow> ustr \<Rightarrow> ustr \<Rightarrow> ustr" where
  "replace old new [] = []"
| "replace old new (x # xs) =
     (if old \<noteq> [] \<and> starts_with (x # xs) old
      then new @ replace old new (drop (length old - 1) xs)
      else x # replace old new xs)"
  by pat_completeness auto
termination
  by (relation "measure (\<lambda>(old, new, s). length s)") auto

text \<open>
  What a fetcher does to the outside world, in order: a run of an actor of the scraping
  service with its input, and the files it writes.
\<close>

datatype effect =
    ActorCall ustr json
  | FileWrite ustr ustr

text \<open>The scraping service: an actor and its input give the items of the dataset, or a raise.\<close>

type_synonym apify = "ustr \<Rightarrow> json \<Rightarrow> error + item list"

text \<open>
  \<open>config.APIFY_API_TOKEN\<close> is \<open>os.getenv(...)\<close>: absent, or a string. It counts as
  configured when it is neither empty nor the placeholder of the template file.
\<close>

definition token_configured :: "ustr option \<Rightarrow> bool" where
  "token_configured token =
     (case token of
        None \<Rightarrow> False
      | Some t \<Rightarrow> t \<noteq> [] \<and> t \<noteq> lit ''your_apify_api_token_here'')"

definition token_error :: error where
  "token_error = ValueError
     ''APIFY_API_TOKEN not configured. Please set your Apify API token in the .env file''"

definition no_input_error :: error where
  "no_input_error = ValueError
     ''Must provide at least one of: start_urls, search_terms, or twitter_handles''"

text \<open>The raw dump: each item's JSON followed by \<open>"\n\n---\n\n"\<close>.\<close>

definition raw_dump :: "builtins \<Rightarrow> item list \<Rightarrow> ustr" where
  "raw_dump lib items =
     concat (map (\<lambda>item. json_dumps lib (JObj item) @ [nl, nl] @ lit ''---'' @ [nl, nl]) items)"

definition examples_path :: "ustr \<Rightarrow> ustr" where
  "examples_path output_file = replace (lit ''.txt'') (lit ''_examples.txt'') output_file"

definition linkedin_actor :: ustr where
  "linkedin_actor = lit ''supreme_coder/linkedin-post''"

definition x_actor :: ustr where
  "x_actor = lit ''apidojo/tweet-scraper''"

text \<open>
  \<open>scrape_linkedin_posts\<close>: the token is the only thing checked before the actor runs;
  the list of URLs goes into the actor's input as it is.
\<close>

definition scrape_linkedin_posts ::
  "builtins \<Rightarrow> ustr option \<Rightarrow> apify \<Rightarrow> ustr list \<Rightarrow> int \<Rightarrow> ustr \<Rightarrow> bool \<Rightarrow>
   effect list \<times> (error + ustr)" where
  "scrape_linkedin_posts lib token client urls limit_per_source output_file format_as_examples =
     (if \<not> token_configured token then ([], Inl token_error)
      else
        let run_input = JObj [(lit ''urls'', JList (map JStr urls)),
                              (lit ''limitPerSource'', JNum limit_per_source)];
            call = ActorCall linkedin_actor run_input
        in case client linkedin_actor run_input of
             Inl e \<Rightarrow> ([call], Inl e)
           | Inr items \<Rightarrow>
               (let raw = FileWrite output_file (raw_dump lib items)
                in if format_as_examples then
                     (case linkedin_format_as_examples lib items of
                        Inl e \<Rightarrow> ([call, raw], Inl e)
                      | Inr formatted_examples \<Rightarrow>
                          ([call, raw, FileWrite (examples_path output_file) formatted_examples],
                           Inr formatted_examples))
                   else ([call, raw], Inr (json_dumps lib (JList (map JObj items))))))"

text \<open>\<open>scrape_and_format_for_workflow\<close> of the LinkedIn scraper.\<close>

definition linkedin_scrape_and_format_for_workflow ::
  "builtins \<Rightarrow> ustr option \<Rightarrow> apify \<Rightarrow> ustr list \<Rightarrow> int \<Rightarrow> effect list \<times> (error + ustr)" where
  "linkedin_scrape_and_format_for_workflow lib token client urls limit_per_source =
     scrape_linkedin_posts lib token client urls limit_per_source
       (lit ''linkedin_scraped.txt'') True"

text \<open>A selector of the X scraper is an optional list; it is given when it is a non-empty list.\<close>

definition selector_given :: "ustr list option \<Rightarrow> bool" where
  "selector_given selector = (case selector of None \<Rightarrow> False | Some xs \<Rightarrow> xs \<noteq> [])"

definition optional_input :: "string \<Rightarrow> ustr list option \<Rightarrow> (ustr \<times> json) list" where
  "optional_input key selector =
     (case selector of
        None \<Rightarrow> []
      | Some xs \<Rightarrow> if xs \<noteq> [] then [(lit key, JList (map JStr xs))] else [])"

text \<open>
  \<open>scrape_x_posts\<close>: the token first, then at least one selector, both before the actor
  runs.
\<close>

definition scrape_x_posts ::
  "builtins \<Rightarrow> ustr option \<Rightarrow> apify \<Rightarrow>
   ustr list option \<Rightarrow> ustr list option \<Rightarrow> ustr list option \<Rightarrow>
   int \<Rightarrow> ustr \<Rightarrow> ustr \<Rightarrow> ustr \<Rightarrow> bool \<Rightarrow> effect list \<times> (error + ustr)" where
  "scrape_x_posts lib token client start_urls search_terms twitter_handles
                  max_items sort_order tweet_language output_file format_as_examples =
     (if \<not> token_configured token then ([], Inl token_error)
      else if \<not> (selector_given start_urls \<or> selector_given search_terms \<or>
                  selector_given twitter_handles)
      then ([], Inl no_input_error)
      else
        let run_input = JObj ([(lit ''maxItems'', JNum max_items),
                               (lit ''sort'', JStr sort_order),
                               (lit ''tweetLanguage'', JStr tweet_language),
                               (lit ''customMapFunction'',
                                JStr (lit ''(object) => { return {...object} }''))] @
                              optional_input ''startUrls'' start_urls @
                              optional_input ''searchTerms'' search_terms @
                              optional_input ''twitterHandles'' twitter_handles);
            call = ActorCall x_actor run_input
        in case client x_actor run_input of
             Inl e \<Rightarrow> ([call], Inl e)
           | Inr items \<Rightarrow>
               (let raw = FileWrite output_file (raw_dump lib items)
                in if format_as_examples then
                     (case x_format_as_examples lib items of
                        Inl e \<Rightarrow> ([call, raw], Inl e)
                      | Inr formatted_examples \<Rightarrow>
                          ([call, raw, FileWrite (examples_path output_file) formatted_examples],
                           Inr formatted_examples))
                   else ([call, raw], Inr (json_dumps lib (JList (map JObj items))))))"

text \<open>\<open>scrape_and_format_for_workflow\<close> of the X scraper.\<close>

definition x_scrape_and_format_for_workflow ::
  "builtins \<Rightarrow> ustr option \<Rightarrow> apify \<Rightarrow>
   ustr list option \<Rightarrow> ustr list option \<Rightarrow> ustr list option \<Rightarrow> int \<Rightarrow>
   effect list \<times> (error + ustr)" where
  "x_scrape_and_format_for_workflow lib token client start_urls search_terms twitter_handles
                                    max_items =
     scrape_x_posts lib token client start_urls search_terms twitter_handles max_items
       (lit ''Latest'') (lit ''en'') (lit ''x_scraped.txt'') True"

text \<open>The remote calls among the effects of a fetcher.\<close>

fun is_actor_call :: "effect \<Rightarrow> bool" where
  "is_actor_call (ActorCall actor run_input) = True"
| "is_actor_call (FileWrite path content) = False"

section \<open>Report formatter\<close>

definition validation_header :: ustr where
  "validation_header = 128269 # lit '' VALIDATION SUMMARY''"

definition linkedin_header :: ustr where
  "linkedin_header = 128188 # lit '' LINKEDIN POSTS''"

definition x_header :: ustr where
  "x_header = 128038 # lit '' X (TWITTER) POSTS''"

text \<open>\<open>"=" * 70\<close> and \<open>"-" * 70\<close>.\<close>

definition double_rule :: ustr where
  "double_rule = replicate 70 61"

definition single_rule :: ustr where
  "single_rule = replicate 70 45"

text \<open>\<open>OrchestratorAgent.format_output\<close>: the parts, joined by newlines.\<close>

definition format_output :: "builtins \<Rightarrow> workflow_report \<Rightarrow> ustr" where
  "format_output lib final_output = join [nl]
     [[nl] @ double_rule,
      128202 # lit '' FINAL OUTPUT - THOUGHT LEADERSHIP CONTENT'',
      double_rule @ [nl],
      128203 # lit '' WORKFLOW METADATA'',
      single_rule,
      lit ''Status: '' @ str_upper lib (workflow_status final_output),
      lit ''Context: '' @ context_provided (metadata final_output),
      lit ''Agents Involved: '' @ join (lit '', '') (agents_used (metadata final_output)),
      lit ''Total LinkedIn Posts: '' @ str_of_int (total_linkedin_posts (metadata final_output)),
      lit ''Total X Posts: '' @ str_of_int (total_x_posts (metadata final_output)),
      [nl],
      validation_header,
      single_rule,
      validation_summary final_output,
      [nl],
      linkedin_header,
      single_rule,
      lit ''Platform: '' @ block_platform (linkedin_posts final_output),
      lit ''Count: '' @ str_of_int (block_count (linkedin_posts final_output)),
      [nl],
      block_content (linkedin_posts final_output),
      [nl],
      x_header,
      single_rule,
      lit ''Platform: '' @ block_platform (x_posts final_output),
      lit ''Count: '' @ str_of_int (block_count (x_posts final_output)),
      [nl],
      block_content (x_posts final_output),
      [nl],
      double_rule,
      9989 # lit '' WORKFLOW COMPLETED SUCCESSFULLY'',
      double_rule]"

text \<open>
  \<open>filter_summary_from_output\<close>: the loop over the lines carries \<open>skip_section\<close> and the
  lines kept so far.
\<close>

fun filter_lines :: "ustr list \<Rightarrow> bool \<Rightarrow> ustr list \<Rightarrow> ustr list" where
  "filter_lines [] skip_section filtered_lines = filtered_lines"
| "filter_lines (line # lines) skip_section filtered_lines =
     (if contains line validation_header then filter_lines lines True filtered_lines
      else
        let skip_section' =
              (if skip_section \<and> (contains line linkedin_header \<or> contains line x_header)
               then False else skip_section)
        in if \<not> skip_section' then filter_lines lines skip_section' (filtered_lines @ [line])
           else filter_lines lines skip_section' filtered_lines)"

definition filter_summary_from_output :: "ustr \<Rightarrow> ustr" where
  "filter_summary_from_output output_text =
     join [nl] (filter_lines (split nl output_text) False [])"

section \<open>Web front end: starting a workflow\<close>

text \<open>
  The global \<open>workflow_status\<close> of the web application. Its key \<open>output\<close> is the field
  \<open>ui_output\<close> here.
\<close>

record status_record =
  running :: bool
  progress :: ustr
  ui_output :: ustr
  full_output :: ustr
  error :: "ustr option"

datatype response_body =
    ErrorBody ustr
  | ExceptionBody error
  | SuccessBody ustr

record http_response =
  status_code :: nat
  body :: response_body

text \<open>The arguments handed to the background thread that runs the workflow.\<close>

record thread_args =
  arg_context :: ustr
  arg_num_posts :: json
  arg_linkedin_urls :: json
  arg_x_urls :: json
  arg_x_search_terms :: json

text \<open>
  \<open>start_workflow\<close> on the status record and the JSON body of the request. It returns the
  response, the status record as the handler leaves it, and the thread it started, if
  any. An exception inside the handler becomes a response with code 500.
\<close>

definition start_workflow ::
  "status_record \<Rightarrow> json \<Rightarrow> http_response \<times> status_record \<times> thread_args option" where
  "start_workflow workflow_status_state data =
     (if running workflow_status_state
      then (\<lparr>status_code = 400, body = ErrorBody (lit ''Workflow is already running'')\<rparr>,
            workflow_status_state, None)
      else
        (case data of
           JObj request_fields \<Rightarrow>
             (let context = dict_get request_fields (lit ''context'') (JStr []);
                  n = dict_get request_fields (lit ''num_posts'') (JNum 3);
                  linkedin_urls = dict_get request_fields (lit ''linkedin_urls'') JNull;
                  x_urls = dict_get request_fields (lit ''x_urls'') JNull;
                  x_search_terms = dict_get request_fields (lit ''x_search_terms'') JNull
              in if \<not> truthy context
                 then (\<lparr>status_code = 400, body = ErrorBody (lit ''Context cannot be empty'')\<rparr>,
                       workflow_status_state, None)
                 else
                   (case context of
                      JStr c \<Rightarrow>
                        if strip c = []
                        then (\<lparr>status_code = 400,
                               body = ErrorBody (lit ''Context cannot be empty'')\<rparr>,
                              workflow_status_state, None)
                        else (\<lparr>status_code = 200,
                               body = SuccessBody (lit ''Workflow started successfully'')\<rparr>,
                              workflow_status_state,
                              Some \<lparr>arg_context = c, arg_num_posts = n,
                                    arg_linkedin_urls = linkedin_urls, arg_x_urls = x_urls,
                                    arg_x_search_terms = x_search_terms\<rparr>)
                    | _ \<Rightarrow>
                        (\<lparr>status_code = 500, body = ExceptionBody AttributeError\<rparr>,
                         workflow_status_state, None)))
         | _ \<Rightarrow>
             (\<lparr>status_code = 500, body = ExceptionBody AttributeError\<rparr>,
              workflow_status_state, None)))"

section \<open>Sample inputs\<close>

text \<open>Remote endpoints that always answer, and ones where the X generator fails.\<close>

definition demo_remote :: remote where
  "demo_remote =
     \<lparr>linkedin_run = (\<lambda>prompt. Inr (Content (lit ''L''))),
      x_run = (\<lambda>prompt. Inr (Opaque (lit ''X''))),
      orchestrator_run = (\<lambda>prompt. Inr (Content (lit ''fine'')))\<rparr>"

definition failing_x_remote :: remote where
  "failing_x_remote =
     \<lparr>linkedin_run = (\<lambda>prompt. Inr (Content (lit ''L''))),
      x_run = (\<lambda>prompt. Inl (RemoteError ''timeout'')),
      orchestrator_run = (\<lambda>prompt. Inr (Content (lit ''fine'')))\<rparr>"

definition demo_lib :: builtins where
  "demo_lib = \<lparr>container_str = (\<lambda>v. lit ''[...]''), json_dumps = (\<lambda>v. lit ''{}''),
               str_upper = (\<lambda>s. s)\<rparr>"

definition empty_dataset :: apify where
  "empty_dataset = (\<lambda>actor run_input. Inr [])"

definition busy_status :: status_record where
  "busy_status = \<lparr>running = True, progress = lit ''Scraping X posts...'', ui_output = [],
                   full_output = [], error = None\<rparr>"

text \<open>
  Two scraped records whose author is null, one with a text below the length threshold
  of both formatting steps and one with a text above it; a report and two small texts.
\<close>

definition null_author_item :: item where
  "null_author_item = [(lit ''text'', JStr (lit ''hi'')), (lit ''author'', JNull)]"

definition passing_null_author_item :: item where
  "passing_null_author_item =
     [(lit ''text'', JStr (lit ''Shipping beats perfection every time.'')),
      (lit ''author'', JNull)]"

definition demo_report :: workflow_report where
  "demo_report =
     \<lparr>workflow_status = lit ''completed'',
      metadata = \<lparr>context_provided = lit ''We sell AI tools.'', total_linkedin_posts = 2,
                   total_x_posts = 2,
                   agents_used = [linkedin_agent_name, x_agent_name, orchestrator_name]\<rparr>,
      validation_summary = lit ''All posts meet the quality standards.'',
      linkedin_posts = \<lparr>block_platform = lit ''LinkedIn'', block_count = 2,
                         block_content = lit ''Post 1''\<rparr>,
      x_posts = \<lparr>block_platform = lit ''X (Twitter)'', block_count = 2,
                  block_content = lit ''Post 1''\<rparr>\<rparr>"

definition demo_rendering :: ustr where
  "demo_rendering = join [nl]
     [lit ''Status: COMPLETED'',
      validation_header,
      lit ''All posts meet the quality standards.'',
      linkedin_header,
      lit ''Post 1'']"

definition plain_text :: ustr where
  "plain_text = join [nl] [lit ''Post 1'', lit ''Post 2'', []]"

section \<open>Properties of the orchestrator\<close>

text \<open>What each function that calls \<open>run\<close> logs.\<close>

lemma linkedin_generate_posts_calls:
  "fst (linkedin_generate_posts env context examples n) =
     [Called LinkedInAgent,
      Returned LinkedInAgent (succeeded (snd (linkedin_generate_posts env context examples n)))]"
  by (auto simp: linkedin_generate_posts_def agent_run_def succeeded_def split: sum.splits)

lemma x_generate_posts_calls:
  "fst (x_generate_posts env context examples n) =
     [Called XAgent, Returned XAgent (succeeded (snd (x_generate_posts env context examples n)))]"
  by (auto simp: x_generate_posts_def agent_run_def succeeded_def split: sum.splits)

lemma validate_and_compile_calls:
  "\<exists>ok. fst (validate_and_compile env context examples linkedin_output x_output) =
     [Called OrchestratorAgent, Returned OrchestratorAgent ok]"
  by (auto simp: validate_and_compile_def agent_run_def split: sum.splits)

text \<open>A schedule merges two logs, and every merge of two logs comes from a schedule.\<close>

lemma set_interleave: "set (interleave schedule xs ys) = set xs \<union> set ys"
  by (induction schedule xs ys rule: interleave.induct) auto

lemma append_in_shuffles: "xs @ ys \<in> shuffles xs ys"
  by (induction xs) (auto intro: Cons_in_shuffles_leftI)

lemma interleave_shuffles: "interleave schedule xs ys \<in> shuffles xs ys"
  by (induction schedule xs ys rule: interleave.induct)
     (auto intro: append_in_shuffles Cons_in_shuffles_leftI Cons_in_shuffles_rightI)

lemma shuffles_interleave: "zs \<in> shuffles xs ys \<Longrightarrow> \<exists>schedule. interleave schedule xs ys = zs"
proof (induction xs ys arbitrary: zs rule: shuffles.induct)
  case (1 ys)
  then show ?case by simp
next
  case (2 xs)
  then have "interleave [] xs [] = zs" by (cases xs) simp_all
  then show ?case by blast
next
  case (3 x xs y ys)
  from 3(3) consider
      (left) zs' where "zs = x # zs'" "zs' \<in> shuffles xs (y # ys)"
    | (right) zs' where "zs = y # zs'" "zs' \<in> shuffles (x # xs) ys"
    by (auto simp: shuffles.simps)
  then show ?case
  proof cases
    case left
    from 3(1) [OF left(2)] obtain schedule where "interleave schedule xs (y # ys) = zs'" by blast
    with left have "interleave (True # schedule) (x # xs) (y # ys) = zs" by simp
    then show ?thesis by blast
  next
    case right
    from 3(2) [OF right(2)] obtain schedule where "interleave schedule (x # xs) ys = zs'" by blast
    with right have "interleave (False # schedule) (x # xs) (y # ys) = zs" by simp
    then show ?thesis by blast
  qed
qed

text \<open>
  The result of \<open>execute_workflow\<close> in terms of the two generator results: the error is
  the one of the first future that the loop sees fail.
\<close>

lemma execute_workflow_result:
  "snd (execute_workflow env schedule order context examples n) =
     (case snd (linkedin_generate_posts env context examples n) of
        Inl e1 \<Rightarrow>
          (case order of
             LinkedInFirst \<Rightarrow> Inl e1
           | XFirst \<Rightarrow> (case snd (x_generate_posts env context examples n) of
                          Inl e2 \<Rightarrow> Inl e2 | Inr rx \<Rightarrow> Inl e1))
      | Inr rl \<Rightarrow>
          (case snd (x_generate_posts env context examples n) of
             Inl e2 \<Rightarrow> Inl e2
           | Inr rx \<Rightarrow> snd (validate_and_compile env context examples rl rx)))"
  by (cases order)
     (auto simp: execute_workflow_def execute_agents_parallel_def Let_def
           split: sum.splits prod.splits option.splits)

text \<open>The log of \<open>execute_workflow\<close>: the merged calls of the two tasks, then the validation.\<close>

lemma execute_workflow_log:
  "fst (execute_workflow env schedule order context examples n) =
     interleave schedule (fst (linkedin_generate_posts env context examples n))
       (fst (x_generate_posts env context examples n)) @
     (case snd (linkedin_generate_posts env context examples n) of
        Inl e1 \<Rightarrow> []
      | Inr rl \<Rightarrow>
          (case snd (x_generate_posts env context examples n) of
             Inl e2 \<Rightarrow> []
           | Inr rx \<Rightarrow> fst (validate_and_compile env context examples rl rx)))"
  by (cases order)
     (auto simp: execute_workflow_def execute_agents_parallel_def Let_def
           split: sum.splits prod.splits option.splits)


lemma generator_answers:
  "linkedin_run env (linkedin_prompt context examples n) = Inr response \<Longrightarrow>
     \<exists>rl. snd (linkedin_generate_posts env context examples n) = Inr rl \<and>
          posts rl = response_text response"
  "x_run env (x_prompt context examples n) = Inr response \<Longrightarrow>
     \<exists>rx. snd (x_generate_posts env context examples n) = Inr rx \<and>
          posts rx = response_text response"
  by (auto simp: linkedin_generate_posts_def x_generate_posts_def agent_run_def)

text \<open>
  C10. In every report \<open>execute_workflow\<close> returns, the context excerpt of the metadata
  is the whole context when it has at most 100 characters, and otherwise its first 100
  characters followed by three dots; it is never longer than 103 characters.
\<close>

theorem execute_workflow_context_excerpt:
  "snd (execute_workflow env schedule order context examples n) = Inr r \<Longrightarrow>
     context_provided (metadata r) =
       (if length context \<le> 100 then context else take 100 context @ lit ''...'') \<and>
     length (context_provided (metadata r)) \<le> 103"
  by (auto simp: execute_workflow_result validate_and_compile_def agent_run_def
           context_excerpt_def lit_def
           split: sum.splits completion_order.splits)

theorem execute_workflow_context_excerpt_witness:
  "\<exists>r. snd (execute_workflow demo_remote [] XFirst (replicate 101 97) (lit ''ex'') 2) = Inr r \<and>
       context_provided (metadata r) = replicate 100 97 @ lit ''...'' \<and>
       length (context_provided (metadata r)) \<le> 103"
proof -
  obtain r where
    r: "snd (execute_workflow demo_remote [] XFirst (replicate 101 97) (lit ''ex'') 2) = Inr r"
    by (simp add: execute_workflow_result linkedin_generate_posts_def x_generate_posts_def
          validate_and_compile_def agent_run_def demo_remote_def)
  from execute_workflow_context_excerpt [OF r] r show ?thesis by (simp add: lit_def)
qed



text \<open>
  C2. If the LinkedIn generator or the X generator raises, \<open>execute_workflow\<close> ends with
  an error raised by one of the generators and returns no report, however the two tasks
  were scheduled and in whichever order the loop saw them.
\<close>

theorem execute_workflow_generator_failure:
  assumes "snd (linkedin_generate_posts env context examples n) = Inl e \<or>
           snd (x_generate_posts env context examples n) = Inl e"
  shows "(\<exists>e'. snd (execute_workflow env schedule order context examples n) = Inl e' \<and>
               (snd (linkedin_generate_posts env context examples n) = Inl e' \<or>
                snd (x_generate_posts env context examples n) = Inl e')) \<and>
         (\<forall>r. snd (execute_workflow env schedule order context examples n) \<noteq> Inr r)"
  using assms
  by (cases order) (auto simp: execute_workflow_result split: sum.splits)

theorem execute_workflow_generator_failure_witness:
  "snd (x_generate_posts failing_x_remote (lit ''c'') (lit ''e'') 3) = Inl (RemoteError ''timeout'') \<and>
   snd (execute_workflow failing_x_remote [False] LinkedInFirst (lit ''c'') (lit ''e'') 3) =
     Inl (RemoteError ''timeout'')"
proof -
  have x: "snd (x_generate_posts failing_x_remote (lit ''c'') (lit ''e'') 3) =
             Inl (RemoteError ''timeout'')"
    by (simp add: x_generate_posts_def agent_run_def failing_x_remote_def)
  have l: "\<exists>r. snd (linkedin_generate_posts failing_x_remote (lit ''c'') (lit ''e'') 3) = Inr r"
    by (simp add: linkedin_generate_posts_def agent_run_def failing_x_remote_def)
  from execute_workflow_generator_failure [of failing_x_remote "lit ''c''" "lit ''e''" 3
      "RemoteError ''timeout''" "[False]" LinkedInFirst] x l
  show ?thesis by auto
qed

text \<open>
  C3. In the log of remote calls of every run of \<open>execute_workflow\<close>, whatever the
  schedule of the two generator tasks, the validation call is issued only after the
  LinkedIn call and the X call have both returned successfully. Between the two
  generator tasks no order is fixed: every interleaving of their calls and returns is
  the beginning of the log of some run.
\<close>

theorem validation_after_both_generators:
  "(\<forall>pre post.
      fst (execute_workflow env schedule order context examples n) =
        pre @ Called OrchestratorAgent # post \<longrightarrow>
      Returned LinkedInAgent True \<in> set pre \<and> Returned XAgent True \<in> set pre) \<and>
   (\<forall>calls \<in> shuffles (fst (linkedin_generate_posts env context examples n))
                       (fst (x_generate_posts env context examples n)).
      \<exists>schedule'. prefix calls (fst (execute_workflow env schedule' order context examples n)))"
proof (rule conjI; intro allI impI ballI)
  fix pre post
  assume eq: "fst (execute_workflow env schedule order context examples n) =
                pre @ Called OrchestratorAgent # post"
  define par where "par = interleave schedule (fst (linkedin_generate_posts env context examples n))
                            (fst (x_generate_posts env context examples n))"
  have par_set: "set par =
      {Called LinkedInAgent,
       Returned LinkedInAgent (succeeded (snd (linkedin_generate_posts env context examples n))),
       Called XAgent,
       Returned XAgent (succeeded (snd (x_generate_posts env context examples n)))}"
    unfolding par_def set_interleave
    by (subst linkedin_generate_posts_calls, subst x_generate_posts_calls) auto
  then have no_validation: "Called OrchestratorAgent \<notin> set par" by simp
  show "Returned LinkedInAgent True \<in> set pre \<and> Returned XAgent True \<in> set pre"
  proof (cases "snd (linkedin_generate_posts env context examples n)")
    case (Inl e1)
    with eq have "par = pre @ Called OrchestratorAgent # post"
      by (simp add: execute_workflow_log par_def)
    with no_validation show ?thesis by auto
  next
    case l: (Inr rl)
    show ?thesis
    proof (cases "snd (x_generate_posts env context examples n)")
      case (Inl e2)
      with eq l have "par = pre @ Called OrchestratorAgent # post"
        by (simp add: execute_workflow_log par_def)
      with no_validation show ?thesis by auto
    next
      case x: (Inr rx)
      obtain ok where "fst (validate_and_compile env context examples rl rx) =
          [Called OrchestratorAgent, Returned OrchestratorAgent ok]"
        using validate_and_compile_calls by blast
      with eq l x have "pre @ Called OrchestratorAgent # post =
          par @ [Called OrchestratorAgent, Returned OrchestratorAgent ok]"
        by (simp add: execute_workflow_log par_def)
      with no_validation have "pre = par"
        by (auto simp: append_eq_append_conv2 append_eq_Cons_conv Cons_eq_append_conv)
      with par_set l x show ?thesis by (simp add: succeeded_def)
    qed
  qed
next
  fix calls
  assume "calls \<in> shuffles (fst (linkedin_generate_posts env context examples n))
                           (fst (x_generate_posts env context examples n))"
  then obtain schedule' where
    "interleave schedule' (fst (linkedin_generate_posts env context examples n))
       (fst (x_generate_posts env context examples n)) = calls"
    using shuffles_interleave by blast
  then have "prefix calls (fst (execute_workflow env schedule' order context examples n))"
    by (simp add: execute_workflow_log)
  then show "\<exists>schedule'. prefix calls (fst (execute_workflow env schedule' order context examples n))"
    by blast
qed

theorem validation_after_both_generators_witness:
  "fst (execute_workflow demo_remote [True, True] XFirst (lit ''c'') (lit ''e'') 1) =
     [Called LinkedInAgent, Returned LinkedInAgent True, Called XAgent, Returned XAgent True] @
     Called OrchestratorAgent # [Returned OrchestratorAgent True] \<and>
   Returned LinkedInAgent True \<in>
     set [Called LinkedInAgent, Returned LinkedInAgent True, Called XAgent, Returned XAgent True] \<and>
   Returned XAgent True \<in>
     set [Called LinkedInAgent, Returned LinkedInAgent True, Called XAgent, Returned XAgent True] \<and>
   (\<exists>schedule'.
      prefix [Called XAgent, Called LinkedInAgent, Returned XAgent True, Returned LinkedInAgent True]
        (fst (execute_workflow demo_remote schedule' XFirst (lit ''c'') (lit ''e'') 1)))"
proof -
  have l: "linkedin_generate_posts demo_remote (lit ''c'') (lit ''e'') 1 =
      ([Called LinkedInAgent, Returned LinkedInAgent True],
       Inr \<lparr>platform = lit ''LinkedIn'', num_posts = 1, posts = lit ''L'',
            agent = linkedin_agent_name\<rparr>)"
    by (simp add: linkedin_generate_posts_def agent_run_def succeeded_def response_text_def
          demo_remote_def)
  have x: "x_generate_posts demo_remote (lit ''c'') (lit ''e'') 1 =
      ([Called XAgent, Returned XAgent True],
       Inr \<lparr>platform = lit ''X (Twitter)'', num_posts = 1, posts = lit ''X'',
            agent = x_agent_name\<rparr>)"
    by (simp add: x_generate_posts_def agent_run_def succeeded_def response_text_def
          demo_remote_def)
  have v: "fst (validate_and_compile demo_remote (lit ''c'') (lit ''e'') rl rx) =
      [Called OrchestratorAgent, Returned OrchestratorAgent True]" for rl rx
    by (simp add: validate_and_compile_def agent_run_def succeeded_def demo_remote_def)
  have log: "fst (execute_workflow demo_remote [True, True] XFirst (lit ''c'') (lit ''e'') 1) =
     [Called LinkedInAgent, Returned LinkedInAgent True, Called XAgent, Returned XAgent True] @
     Called OrchestratorAgent # [Returned OrchestratorAgent True]"
    by (simp add: execute_workflow_log l x v)
  have mem: "[Called XAgent, Called LinkedInAgent, Returned XAgent True, Returned LinkedInAgent True]
      \<in> shuffles (fst (linkedin_generate_posts demo_remote (lit ''c'') (lit ''e'') 1))
                  (fst (x_generate_posts demo_remote (lit ''c'') (lit ''e'') 1))"
    by (simp add: l x shuffles.simps)
  from validation_after_both_generators [of demo_remote "[True, True]" XFirst "lit ''c''"
         "lit ''e''" 1] log mem
  show ?thesis by blast
qed

section \<open>Properties of the web front end\<close>

text \<open>
  C8. While the status record says \<open>running\<close>, \<open>start_workflow\<close> answers with the error
  response (code 400), leaves every field of the status record as it was, and starts no
  thread.
\<close>

theorem start_workflow_while_running:
  "running st \<Longrightarrow>
     start_workflow st data =
       (\<lparr>status_code = 400, body = ErrorBody (lit ''Workflow is already running'')\<rparr>, st, None)"
  by (simp add: start_workflow_def)

theorem start_workflow_while_running_witness:
  "running busy_status \<and>
   start_workflow busy_status (JObj [(lit ''context'', JStr (lit ''We sell AI tools.''))]) =
     (\<lparr>status_code = 400, body = ErrorBody (lit ''Workflow is already running'')\<rparr>,
      busy_status, None)"
proof -
  have r: "running busy_status" by (simp add: busy_status_def)
  from start_workflow_while_running [OF r] r show ?thesis by simp
qed

section \<open>Properties of the example fetchers\<close>

text \<open>
  Against C4. The LinkedIn fetcher with a configured token and an empty list of URLs runs
  the actor and returns the placeholder text, where the claim expects an input error and
  no remote call. The X fetcher without a token and with no selector fails with the
  configuration error, not with the input error.
\<close>

theorem linkedin_fetcher_empty_urls_counterexample:
  "filter is_actor_call
     (fst (linkedin_scrape_and_format_for_workflow demo_lib (Some (lit ''token'')) empty_dataset [] 5)) =
     [ActorCall linkedin_actor (JObj [(lit ''urls'', JList []), (lit ''limitPerSource'', JNum 5)])] \<and>
   snd (linkedin_scrape_and_format_for_workflow demo_lib (Some (lit ''token'')) empty_dataset [] 5) =
     Inr no_examples \<and>
   snd (x_scrape_and_format_for_workflow demo_lib None empty_dataset None None None 20) =
     Inl token_error \<and>
   token_error \<noteq> no_input_error"
  by (simp add: linkedin_scrape_and_format_for_workflow_def scrape_linkedin_posts_def
        x_scrape_and_format_for_workflow_def scrape_x_posts_def token_error_def
        no_input_error_def token_configured_def empty_dataset_def
        linkedin_format_as_examples_def Let_def lit_def)

text \<open>
  C4, amended. With the token configured, the X fetcher given no selector (each one absent
  or an empty list) fails with the input error and has no effect at all, so no remote
  call; without a configured token, both fetchers fail with the configuration error, again
  with no effect.
\<close>

theorem fetchers_fail_before_remote_call:
  "(token_configured token \<and> \<not> selector_given start_urls \<and> \<not> selector_given search_terms \<and>
    \<not> selector_given twitter_handles \<longrightarrow>
      x_scrape_and_format_for_workflow lib token client start_urls search_terms twitter_handles
        max_items = ([], Inl no_input_error)) \<and>
   (\<not> token_configured token \<longrightarrow>
      x_scrape_and_format_for_workflow lib token client start_urls search_terms twitter_handles
        max_items = ([], Inl token_error) \<and>
      linkedin_scrape_and_format_for_workflow lib token client urls limit_per_source =
        ([], Inl token_error))"
  by (simp add: x_scrape_and_format_for_workflow_def scrape_x_posts_def
        linkedin_scrape_and_format_for_workflow_def scrape_linkedin_posts_def)

theorem fetchers_fail_before_remote_call_witness:
  "x_scrape_and_format_for_workflow demo_lib (Some (lit ''token'')) empty_dataset None (Some []) None 20 =
     ([], Inl no_input_error) \<and>
   x_scrape_and_format_for_workflow demo_lib None empty_dataset (Some [lit ''https://twitter.com/OpenAI'']) None None 20 =
     ([], Inl token_error) \<and>
   linkedin_scrape_and_format_for_workflow demo_lib None empty_dataset [] 5 = ([], Inl token_error)"
proof -
  have a: "token_configured (Some (lit ''token'')) \<and> \<not> selector_given None \<and>
           \<not> selector_given (Some []) \<and> \<not> selector_given None"
    by (simp add: token_configured_def selector_given_def lit_def)
  have b: "\<not> token_configured None" by (simp add: token_configured_def)
  from fetchers_fail_before_remote_call [of "Some (lit ''token'')" None "Some []" None demo_lib
         empty_dataset 20] a
       fetchers_fail_before_remote_call [of None "Some [lit ''https://twitter.com/OpenAI'']" None None
         demo_lib empty_dataset 20 "[]" 5] b
  show ?thesis by simp
qed

section \<open>Properties of the formatting step\<close>

text \<open>
  C5 at the list holding one record with the text \<open>hi\<close> and a null author. The text is
  shorter than the threshold, so no record survives the filter and the claim expects the
  placeholder. The X formatting step returns it; the LinkedIn formatting step reads
  \<open>item.get('author', {}).get('name', ...)\<close> before it tests the text and raises.
\<close>

theorem linkedin_format_short_text_null_author:
  "dict_get null_author_item (lit ''text'') (JStr []) = JStr (lit ''hi'') \<and>
   length (strip (lit ''hi'')) < 20 \<and>
   linkedin_format_as_examples demo_lib [null_author_item] = Inl AttributeError \<and>
   x_format_as_examples demo_lib [null_author_item] = Inr no_examples"
  by (simp add: linkedin_format_as_examples_def linkedin_example_def x_format_as_examples_def
        x_example_def x_author_name_def null_author_item_def dict_get_def lit_def strip_def
        is_space_def Let_def)

text \<open>
  C6 at the list holding one record with a text of 37 characters and a null author. The
  text passes the filter of both variants, so the claim expects the record in the
  output. The X formatting step renders it; the LinkedIn formatting step raises, for the
  same reason as above, and the record is in no output.
\<close>

theorem linkedin_format_passing_text_null_author:
  "dict_get passing_null_author_item (lit ''text'') (JStr []) =
     JStr (lit ''Shipping beats perfection every time.'') \<and>
   20 \<le> length (strip (lit ''Shipping beats perfection every time.'')) \<and>
   linkedin_format_as_examples demo_lib [passing_null_author_item] = Inl AttributeError \<and>
   x_format_as_examples demo_lib [passing_null_author_item] =
     Inr (lit ''X Example 1:'' @ [nl] @
          [dquote] @ lit ''Shipping beats perfection every time.'' @ [dquote] @ [nl] @
          lit ''(Author: @Unknown Author)'' @ [nl])"
  by (simp add: linkedin_format_as_examples_def linkedin_example_def x_format_as_examples_def
        x_example_def x_author_name_def passing_null_author_item_def dict_get_def lit_def
        strip_def is_space_def digits.simps Let_def)

section \<open>Properties of the report formatter\<close>

subsection \<open>Substrings, joining and splitting\<close>

lemma starts_with_prefix: "starts_with s p \<longleftrightarrow> prefix p s"
  by (induction s p rule: starts_with.induct) auto

lemma contains_sublist: "contains s sub \<longleftrightarrow> sublist sub s"
proof (induction s)
  case Nil
  show ?case by simp
next
  case (Cons x xs)
  then show ?case by (simp add: starts_with_prefix sublist_Cons_right)
qed

lemma join_Cons: "ls \<noteq> [] \<Longrightarrow> join sep (l # ls) = l @ sep @ join sep ls"
  by (cases ls) simp_all

lemma member_sublist_join: "x \<in> set ls \<Longrightarrow> sublist x (join sep ls)"
proof (induction sep ls rule: join.induct)
  case (1 sep)
  then show ?case by simp
next
  case (2 sep l)
  then show ?case by simp
next
  case (3 sep l y ys)
  show ?case
  proof (cases "x = l")
    case True
    then show ?thesis by simp
  next
    case False
    with 3 have "sublist x (join sep (y # ys))" by simp
    then show ?thesis by (simp add: sublist_append)
  qed
qed

text \<open>A run without the separator character that occurs in a joined text lies in one part.\<close>

lemma sublist_join_part:
  assumes "c \<notin> set h" and "h \<noteq> []"
  shows "sublist h (join [c] ls) \<Longrightarrow> \<exists>l \<in> set ls. sublist h l"
proof (induction "[c]" ls rule: join.induct)
  case 1
  with assms show ?case by simp
next
  case (2 l)
  then show ?case by simp
next
  case (3 l y ys)
  from 3(2) have "sublist h (l @ c # join [c] (y # ys))" by simp
  then consider
      (left) "sublist h l"
    | (right) "sublist h (c # join [c] (y # ys))"
    | (across) xs1 xs2 where "h = xs1 @ xs2" "suffix xs1 l" "prefix xs2 (c # join [c] (y # ys))"
                  "xs2 \<noteq> []"
    by (auto simp: sublist_append) (metis append_Nil2 suffix_imp_sublist)
  then show ?case
  proof cases
    case left
    then show ?thesis by auto
  next
    case right
    with assms have "sublist h (join [c] (y # ys))"
      by (cases h) (auto simp: sublist_Cons_right)
    with 3(1) show ?thesis by auto
  next
    case across
    then have "c \<in> set xs2" by (cases xs2) auto
    with across assms show ?thesis by auto
  qed
qed

lemma split_not_empty: "split c s \<noteq> []"
  by (induction s) (auto split: list.splits)

lemma join_split: "join [c] (split c s) = s"
proof (induction s)
  case Nil
  show ?case by simp
next
  case (Cons x xs)
  obtain l ls where sp: "split c xs = l # ls"
    using split_not_empty [of c xs] by (cases "split c xs") auto
  show ?case
  proof (cases "x = c")
    case True
    with Cons sp show ?thesis by simp
  next
    case False
    have "join [c] ((x # l) # ls) = x # join [c] (l # ls)" by (cases ls) simp_all
    with False Cons sp show ?thesis by simp
  qed
qed

lemma split_lines:
  "prefix (hd (split c s)) s \<and> (\<forall>l \<in> set (split c s). sublist l s)"
proof (induction s)
  case Nil
  show ?case by simp
next
  case (Cons x xs)
  obtain l ls where sp: "split c xs = l # ls"
    using split_not_empty [of c xs] by (cases "split c xs") auto
  with Cons have p: "prefix l xs" and s: "\<forall>k \<in> set (l # ls). sublist k xs" by auto
  show ?case
  proof (cases "x = c")
    case True
    with s sp show ?thesis by (auto simp: sublist_Cons_right)
  next
    case False
    from p have "sublist (x # l) (x # xs)" by (simp add: prefix_imp_sublist)
    with False s sp p show ?thesis by (auto simp: sublist_Cons_right)
  qed
qed

lemma split_line_sublist: "l \<in> set (split c s) \<Longrightarrow> sublist l s"
  using split_lines by blast


subsection \<open>The filter for the user interface\<close>

lemma validation_header_one_line: "nl \<notin> set validation_header" "validation_header \<noteq> []"
  by (simp_all add: validation_header_def lit_def nl_def)

text \<open>A line the loop keeps was kept before, or is an input line without the header.\<close>

lemma filter_lines_kept:
  "l \<in> set (filter_lines ls skip_section kept) \<Longrightarrow>
     l \<in> set kept \<or> (l \<in> set ls \<and> \<not> contains l validation_header)"
proof (induction ls arbitrary: skip_section kept)
  case Nil
  then show ?case by simp
next
  case (Cons line ls)
  show ?case
  proof (cases "contains line validation_header")
    case True
    with Cons.prems have "l \<in> set (filter_lines ls True kept)" by simp
    from Cons.IH [OF this] show ?thesis by auto
  next
    case False
    with Cons.prems Cons.IH [of _ "kept @ [line]"] Cons.IH [of _ kept] show ?thesis
      by (auto simp: Let_def split: if_splits)
  qed
qed

text \<open>Without a header line the loop never starts skipping and keeps every line.\<close>

lemma filter_lines_without_header:
  "\<forall>l \<in> set ls. \<not> contains l validation_header \<Longrightarrow> filter_lines ls False kept = kept @ ls"
  by (induction ls arbitrary: kept) simp_all

lemma filtered_text_has_no_header:
  "\<not> contains (filter_summary_from_output t) validation_header"
proof
  assume "contains (filter_summary_from_output t) validation_header"
  then have "sublist validation_header (join [nl] (filter_lines (split nl t) False []))"
    by (simp add: contains_sublist filter_summary_from_output_def)
  then obtain l where l: "l \<in> set (filter_lines (split nl t) False [])"
      and h: "sublist validation_header l"
    using sublist_join_part [OF validation_header_one_line] by blast
  from filter_lines_kept [OF l] have "\<not> contains l validation_header" by simp
  with h show False by (simp add: contains_sublist)
qed

lemma filter_without_header_line:
  "\<forall>line \<in> set (split nl t). \<not> contains line validation_header \<Longrightarrow>
     filter_summary_from_output t = t"
  by (simp add: filter_summary_from_output_def filter_lines_without_header join_split)

text \<open>
  C7. For a report with a non-empty validation summary, the full rendering contains the
  header of the validation section, and the rendering filtered for the user interface
  does not contain it.
\<close>

theorem validation_header_only_in_full_output:
  "validation_summary final_output \<noteq> [] \<Longrightarrow>
     contains (format_output lib final_output) validation_header \<and>
     \<not> contains (filter_summary_from_output (format_output lib final_output)) validation_header"
proof
  show "contains (format_output lib final_output) validation_header"
    unfolding contains_sublist format_output_def
    by (rule member_sublist_join) simp
  show "\<not> contains (filter_summary_from_output (format_output lib final_output)) validation_header"
    by (rule filtered_text_has_no_header)
qed

theorem validation_header_only_in_full_output_witness:
  "validation_summary demo_report \<noteq> [] \<and>
   contains (format_output demo_lib demo_report) validation_header \<and>
   \<not> contains (filter_summary_from_output (format_output demo_lib demo_report)) validation_header"
proof -
  have s: "validation_summary demo_report \<noteq> []" by (simp add: demo_report_def lit_def)
  from validation_header_only_in_full_output [OF s, of demo_lib] s show ?thesis by simp
qed

text \<open>
  C9. Filtering twice gives what filtering once gives; and a text none of whose lines
  holds the header of the validation section is returned unchanged.
\<close>

theorem filter_summary_idempotent:
  "filter_summary_from_output (filter_summary_from_output t) = filter_summary_from_output t \<and>
   ((\<forall>line \<in> set (split nl t). \<not> contains line validation_header) \<longrightarrow>
      filter_summary_from_output t = t)"
proof
  have "\<forall>line \<in> set (split nl (filter_summary_from_output t)). \<not> contains line validation_header"
  proof
    fix line
    assume "line \<in> set (split nl (filter_summary_from_output t))"
    then have in_text: "sublist line (filter_summary_from_output t)" by (rule split_line_sublist)
    show "\<not> contains line validation_header"
    proof
      assume "contains line validation_header"
      then have "sublist validation_header line" by (simp add: contains_sublist)
      from this in_text have "sublist validation_header (filter_summary_from_output t)"
        by (rule sublist_order.order.trans)
      with filtered_text_has_no_header show False by (simp add: contains_sublist)
    qed
  qed
  then show "filter_summary_from_output (filter_summary_from_output t) = filter_summary_from_output t"
    by (rule filter_without_header_line)
  show "(\<forall>line \<in> set (split nl t). \<not> contains line validation_header) \<longrightarrow>
      filter_summary_from_output t = t"
    by (simp add: filter_without_header_line)
qed

lemma demo_rendering_filtered:
  "filter_summary_from_output demo_rendering =
     join [nl] [lit ''Status: COMPLETED'', linkedin_header, lit ''Post 1'']"
  by (simp add: filter_summary_from_output_def demo_rendering_def validation_header_def
        linkedin_header_def x_header_def lit_def nl_def Let_def)

theorem filter_summary_idempotent_witness:
  "list_all (\<lambda>line. \<not> contains line validation_header) (split nl plain_text) \<and>
   filter_summary_from_output plain_text = plain_text \<and>
   filter_summary_from_output (filter_summary_from_output demo_rendering) =
     filter_summary_from_output demo_rendering"
proof -
  have h: "\<forall>line \<in> set (split nl plain_text). \<not> contains line validation_header"
    by (simp add: plain_text_def validation_header_def lit_def nl_def)
  from filter_summary_idempotent [of plain_text] filter_summary_idempotent [of demo_rendering] h
  show ?thesis by (simp add: list_all_iff)
qed

end
